theory Spec2Isabelle
  imports Complex_Main
begin

section \<open>Data model\<close>

text \<open>
  The arpeggiator is Python. Its integers are unbounded (\<open>int\<close>), its lists are HOL
  lists, its dictionaries with a fixed content are association lists read with
  \<open>map_of\<close>. Every duration of the mood table is a multiple of 1/8 and a request has at
  most 8 bars of 32 notes, so the floating-point sums of the renderer are exact and time is
  modelled by \<open>rat\<close>. A text is a list of 8-bit characters, read as the code points
  U+0000 to U+00FF; \<open>str.isdigit\<close>, \<open>str.isalpha\<close>, \<open>str.lower\<close>, \<open>int\<close> and the
  regular expression class \<open>\\d\<close> are modelled as Python defines them on these code
  points.
\<close>

datatype py_error = ZeroDivisionError | ValueError | IndexError | LibraryError

record mood_config =
  scale_type :: string
  chord_progression :: "string list"
  rhythm_patterns :: "rat list list"
  velocity_range :: "int \<times> int"
  octave_range :: "int \<times> int"
  note_density :: string

text \<open>A note dictionary of the renderer; the key \<open>end\<close> is written \<open>end_time\<close>.\<close>

record note_data =
  pitch :: int
  start :: rat
  end_time :: rat
  velocity :: int

record instrument =
  program :: int
  inst_notes :: "note_data list"

record pretty_midi =
  initial_tempo :: int
  instruments :: "instrument list"

subsection \<open>The random source\<close>

text \<open>
  Python's module-level generator is global state; here it is passed explicitly. Both
  \<open>random.choice\<close> and \<open>random.randint\<close> are built on \<open>_randbelow n\<close>, which
  returns a number below \<open>n\<close> and advances the generator. The generator is a stream of
  raw draws with a read position, so every sequence of outcomes is the behaviour of some
  generator. \<open>choice\<close> raises IndexError on an empty sequence and \<open>randint a b\<close> raises
  ValueError when \<open>b < a\<close>.
\<close>

record rng =
  draws :: "nat \<Rightarrow> nat"
  pos :: nat

definition randbelow :: "nat \<Rightarrow> rng \<Rightarrow> nat \<times> rng" where
  "randbelow n g = (draws g (pos g) mod n, g\<lparr>pos := Suc (pos g)\<rparr>)"

definition choice :: "'a list \<Rightarrow> rng \<Rightarrow> py_error + ('a \<times> rng)" where
  "choice xs g =
     (if xs = [] then Inl IndexError
      else case randbelow (length xs) g of (k, g') \<Rightarrow> Inr (xs ! k, g'))"

definition randint :: "int \<Rightarrow> int \<Rightarrow> rng \<Rightarrow> py_error + (int \<times> rng)" where
  "randint a b g =
     (if b < a then Inl ValueError
      else case randbelow (nat (b - a + 1)) g of (k, g') \<Rightarrow> Inr (a + int k, g'))"

text \<open>A generator for worked examples: its draws are 3, 10, 17, ...\<close>

definition example_rng :: rng where
  "example_rng = \<lparr>draws = (\<lambda>i. 7 * i + 3), pos = 0\<rparr>"

section \<open>MusicTheoryEngine\<close>

subsection \<open>The mood table\<close>

definition happy_config :: mood_config where
  "happy_config = \<lparr>scale_type = ''major'',
     chord_progression = [''I'', ''IV'', ''V'', ''I''],
     rhythm_patterns = [[0.25, 0.25, 0.25, 0.25], [0.5, 0.25, 0.25]],
     velocity_range = (80, 110), octave_range = (0, 1), note_density = ''high''\<rparr>"

definition calm_config :: mood_config where
  "calm_config = \<lparr>scale_type = ''major'',
     chord_progression = [''I'', ''vi'', ''IV'', ''V''],
     rhythm_patterns = [[0.5, 0.5], [1]],
     velocity_range = (50, 80), octave_range = (0, 0), note_density = ''low''\<rparr>"

definition energetic_config :: mood_config where
  "energetic_config = \<lparr>scale_type = ''major'',
     chord_progression = [''I'', ''V'', ''vi'', ''IV''],
     rhythm_patterns = [[0.125, 0.125, 0.125, 0.125, 0.125, 0.125, 0.125, 0.125]],
     velocity_range = (90, 127), octave_range = (0, 2), note_density = ''very_high''\<rparr>"

definition dark_config :: mood_config where
  "dark_config = \<lparr>scale_type = ''minor'',
     chord_progression = [''i'', ''iv'', ''v'', ''i''],
     rhythm_patterns = [[0.5, 0.5], [0.75, 0.25]],
     velocity_range = (40, 70), octave_range = (-1, 0), note_density = ''medium''\<rparr>"

definition ambient_config :: mood_config where
  "ambient_config = \<lparr>scale_type = ''major'',
     chord_progression = [''I'', ''IV'', ''I'', ''V''],
     rhythm_patterns = [[1], [2]],
     velocity_range = (30, 60), octave_range = (0, 1), note_density = ''very_low''\<rparr>"

definition chaotic_config :: mood_config where
  "chaotic_config = \<lparr>scale_type = ''chromatic'',
     chord_progression = [''I'', ''bII'', ''V'', ''i''],
     rhythm_patterns = [[0.125, 0.25, 0.125, 0.5], [0.25, 0.125, 0.125, 0.25, 0.25]],
     velocity_range = (60, 120), octave_range = (-1, 2), note_density = ''high''\<rparr>"

definition epic_config :: mood_config where
  "epic_config = \<lparr>scale_type = ''minor'',
     chord_progression = [''i'', ''VI'', ''III'', ''VII''],
     rhythm_patterns = [[0.5, 0.25, 0.25], [0.25, 0.25, 0.5]],
     velocity_range = (80, 120), octave_range = (0, 2), note_density = ''high''\<rparr>"

definition melancholic_config :: mood_config where
  "melancholic_config = \<lparr>scale_type = ''minor'',
     chord_progression = [''i'', ''iv'', ''VI'', ''v''],
     rhythm_patterns = [[0.75, 0.25], [0.5, 0.5]],
     velocity_range = (45, 75), octave_range = (0, 1), note_density = ''medium''\<rparr>"

definition mood_configs :: "(string \<times> mood_config) list" where
  "mood_configs =
     [(''happy'', happy_config), (''calm'', calm_config),
      (''energetic'', energetic_config), (''dark'', dark_config),
      (''ambient'', ambient_config), (''chaotic'', chaotic_config),
      (''epic'', epic_config), (''melancholic'', melancholic_config)]"

text \<open>\<open>self.mood_configs.get(mood, self.mood_configs['happy'])\<close>, the expression that every
  method keyed by mood starts with.\<close>

definition mood_configs_get :: "string \<Rightarrow> mood_config" where
  "mood_configs_get mood =
     (case map_of mood_configs mood of
        Some config \<Rightarrow> config
      | None \<Rightarrow> the (map_of mood_configs ''happy''))"

definition get_notes_per_bar :: "string \<Rightarrow> int" where
  "get_notes_per_bar density =
     (case map_of [(''very_low'', 2), (''low'', 4), (''medium'', 8), (''high'', 16),
                   (''very_high'', 32)] density of
        Some n \<Rightarrow> n
      | None \<Rightarrow> 8)"

definition key_map :: "(string \<times> int) list" where
  "key_map =
     [(''C'', 60), (''C#'', 61), (''Db'', 61), (''D'', 62), (''D#'', 63),
      (''Eb'', 63), (''E'', 64), (''F'', 65), (''F#'', 66), (''Gb'', 66),
      (''G'', 67), (''G#'', 68), (''Ab'', 68), (''A'', 69), (''A#'', 70),
      (''Bb'', 70), (''B'', 71)]"

definition key_to_midi :: "string \<Rightarrow> int" where
  "key_to_midi key = (case map_of key_map key of Some m \<Rightarrow> m | None \<Rightarrow> 60)"

subsection \<open>Scales\<close>

text \<open>
  The scale library (music21) is outside the repository, so it is a parameter: parsing a
  key gives a pitch or raises, and a scale class built on that pitch gives the MIDI numbers
  of its \<open>pitches\<close> or raises. \<open>get_scale_notes\<close> catches every exception and answers with
  the C major fallback.
\<close>

datatype scale_class = MajorScale | MinorScale | ChromaticScale

record 'p music21 =
  parse_pitch :: "string \<Rightarrow> py_error + 'p"
  scale_pitches_midi :: "scale_class \<Rightarrow> 'p \<Rightarrow> py_error + int list"

text \<open>
  One instance of the library, for worked examples: the key names of \<open>key_map\<close> parse to
  their pitch in the middle octave, any other key raises, and a scale is its tonic plus the
  steps of the scale up to the octave.
\<close>

definition table_scales :: "int music21" where
  "table_scales =
     \<lparr>parse_pitch = (\<lambda>key. case map_of key_map key of
                              Some m \<Rightarrow> Inr m
                            | None \<Rightarrow> Inl LibraryError),
      scale_pitches_midi = (\<lambda>s tonic. Inr (map (\<lambda>d. tonic + d)
         (case s of
            MajorScale \<Rightarrow> [0, 2, 4, 5, 7, 9, 11, 12]
          | MinorScale \<Rightarrow> [0, 2, 3, 5, 7, 8, 10, 12]
          | ChromaticScale \<Rightarrow> [0, 1, 2, 3, 4, 5, 6, 7, 8, 9, 10, 11, 12])))\<rparr>"

definition fallback_scale :: "int list" where
  "fallback_scale = [60, 62, 64, 65, 67, 69, 71, 72]"

text \<open>The scale class that \<open>get_scale_notes\<close> builds for a scale type; any other type is
  a major scale.\<close>

definition scale_of :: "string \<Rightarrow> scale_class" where
  "scale_of scale_ty =
     (if scale_ty = ''major'' then MajorScale
      else if scale_ty = ''minor'' then MinorScale
      else if scale_ty = ''chromatic'' then ChromaticScale
      else MajorScale)"

definition get_scale_notes :: "'p music21 \<Rightarrow> string \<Rightarrow> string \<Rightarrow> int list" where
  "get_scale_notes lib key scale_ty =
     (case parse_pitch lib key of
        Inl e \<Rightarrow> fallback_scale
      | Inr key_pitch \<Rightarrow>
          (case scale_pitches_midi lib (scale_of scale_ty) key_pitch of
             Inl e \<Rightarrow> fallback_scale
           | Inr midis \<Rightarrow>
               sort (remdups (concat (map
                 (\<lambda>octave. filter (\<lambda>midi. 21 \<le> midi \<and> midi \<le> 108)
                              (map (\<lambda>p. p + octave * 12) midis))
                 [-1, 0, 1, 2])))))"

subsection \<open>Rendering\<close>

text \<open>
  The body of the loop over \<open>range(total_notes)\<close>. The accumulator \<open>acc\<close> is the list
  \<open>notes\<close>, \<open>current_time\<close> the running cursor. A modulus by the length of an empty list
  raises ZeroDivisionError.
\<close>

fun render_loop ::
  "mood_config \<Rightarrow> int list \<Rightarrow> int list \<Rightarrow> rat list \<Rightarrow> nat list \<Rightarrow> note_data list \<Rightarrow> rat \<Rightarrow> rng
   \<Rightarrow> py_error + (note_data list \<times> rng)" where
  "render_loop config intervals scale_notes rhythm_pattern [] acc current_time g =
     Inr (acc, g)"
| "render_loop config intervals scale_notes rhythm_pattern (i # rest) acc current_time g =
     (if intervals = [] then Inl ZeroDivisionError
      else if scale_notes = [] then Inl ZeroDivisionError
      else
        case randint (fst (octave_range config)) (snd (octave_range config)) g of
          Inl e \<Rightarrow> Inl e
        | Inr (r, g1) \<Rightarrow>
            if rhythm_pattern = [] then Inl ZeroDivisionError
            else
              (case randint (fst (velocity_range config)) (snd (velocity_range config)) g1 of
                Inl e \<Rightarrow> Inl e
              | Inr (vel, g2) \<Rightarrow>
                  render_loop config intervals scale_notes rhythm_pattern rest
                    (acc @ [\<lparr>pitch = max 21 (min 108
                               (scale_notes !
                                  nat (intervals ! (i mod length intervals)
                                         mod int (length scale_notes))
                                + r * 12)),
                             start = current_time,
                             end_time = current_time + rhythm_pattern ! (i mod length rhythm_pattern),
                             velocity = vel\<rparr>])
                    (current_time + rhythm_pattern ! (i mod length rhythm_pattern)) g2))"

definition create_arpeggio_from_intervals ::
  "'p music21 \<Rightarrow> string \<Rightarrow> string \<Rightarrow> int list \<Rightarrow> int \<Rightarrow> int \<Rightarrow> rng
   \<Rightarrow> py_error + (note_data list \<times> rng)" where
  "create_arpeggio_from_intervals lib key mood intervals num_bars bpm g =
     (let config = mood_configs_get mood;
          scale_notes = get_scale_notes lib key (scale_type config);
          root_midi = key_to_midi key;
          notes_per_bar = get_notes_per_bar (note_density config);
          total_notes = notes_per_bar * num_bars
      in case choice (rhythm_patterns config) g of
           Inl e \<Rightarrow> Inl e
         | Inr (rhythm_pattern, g1) \<Rightarrow>
             render_loop config intervals scale_notes rhythm_pattern
               [0..<nat total_notes] [] 0 g1)"

subsection \<open>Patterns by style\<close>

fun alternating_loop :: "nat list \<Rightarrow> bool \<Rightarrow> int list \<Rightarrow> int list" where
  "alternating_loop [] ascending pattern = pattern"
| "alternating_loop (i # rest) ascending pattern =
     alternating_loop rest
       (if (i + 1) mod 8 = 0 then \<not> ascending else ascending)
       (pattern @ [if ascending then int i mod 8 else 7 - int i mod 8])"

fun random_loop :: "nat \<Rightarrow> rng \<Rightarrow> py_error + (int list \<times> rng)" where
  "random_loop 0 g = Inr ([], g)"
| "random_loop (Suc n) g =
     (case randint 0 7 g of
        Inl e \<Rightarrow> Inl e
      | Inr (v, g1) \<Rightarrow>
          (case random_loop n g1 of
             Inl e \<Rightarrow> Inl e
           | Inr (vs, g2) \<Rightarrow> Inr (v # vs, g2)))"

definition create_pattern_from_style ::
  "string \<Rightarrow> string \<Rightarrow> string \<Rightarrow> int \<Rightarrow> rng \<Rightarrow> py_error + (int list \<times> rng)" where
  "create_pattern_from_style style key mood num_bars g =
     (let config = mood_configs_get mood;
          notes_per_bar = get_notes_per_bar (note_density config);
          total_notes = notes_per_bar * num_bars
      in if style = ''ascending'' then
           Inr (map (\<lambda>i. int i mod 8) [0..<nat total_notes], g)
         else if style = ''descending'' then
           Inr (map (\<lambda>i. 7 - int i mod 8) [0..<nat total_notes], g)
         else if style = ''alternating'' then
           Inr (alternating_loop [0..<nat total_notes] True [], g)
         else if style = ''random'' then
           random_loop (nat total_notes) g
         else
           Inr (map (\<lambda>i. int i mod 8) [0..<nat total_notes], g))"

subsection \<open>Description text\<close>

definition is_upper :: "char \<Rightarrow> bool" where
  "is_upper c = (65 \<le> (of_char c :: nat) \<and> (of_char c :: nat) \<le> 90)"

definition is_lower :: "char \<Rightarrow> bool" where
  "is_lower c = (97 \<le> (of_char c :: nat) \<and> (of_char c :: nat) \<le> 122)"

text \<open>\<open>str.lower\<close> on one character: the capital letters are A to Z and, beyond ASCII,
  U+00C0 to U+00DE without the multiplication sign U+00D7.\<close>

definition lower :: "char \<Rightarrow> char" where
  "lower c =
     (if is_upper c
         \<or> (192 \<le> (of_char c :: nat) \<and> (of_char c :: nat) \<le> 222 \<and> (of_char c :: nat) \<noteq> 215)
      then char_of ((of_char c :: nat) + 32) else c)"

text \<open>The capital of the first character in \<open>str.capitalize\<close>, for the ASCII letters
  that the mood names are made of.\<close>

definition upper :: "char \<Rightarrow> char" where
  "upper c = (if is_lower c then char_of ((of_char c :: nat) - 32) else c)"

definition capitalize :: "string \<Rightarrow> string" where
  "capitalize s = (case s of [] \<Rightarrow> [] | c # cs \<Rightarrow> upper c # map lower cs)"

definition analyze_pattern_movement :: "int list \<Rightarrow> string" where
  "analyze_pattern_movement intervals =
     (if length intervals < 2 then ''static''
      else
        let ascending = length (filter (\<lambda>i. intervals ! (i + 1) > intervals ! i)
                                  [0..<length intervals - 1]);
            descending = length (filter (\<lambda>i. intervals ! (i + 1) < intervals ! i)
                                   [0..<length intervals - 1])
        in if (of_nat ascending :: rat) > of_nat descending * 1.5 then ''ascending''
           else if (of_nat descending :: rat) > of_nat ascending * 1.5 then ''descending''
           else ''alternating'')"

definition get_mood_description :: "string \<Rightarrow> int list \<Rightarrow> string" where
  "get_mood_description mood intervals =
     (let config = mood_configs_get mood;
          pattern_movement = analyze_pattern_movement intervals
      in capitalize mood @ '' '' @ scale_type config @ '' arpeggio with ''
         @ pattern_movement @ '' movement'')"

section \<open>MidiProcessor\<close>

text \<open>
  The container is built with \<open>bpm\<close> as its initial tempo and one instrument, program
  0, holding the notes in the order given. The constructor \<open>PrettyMIDI(initial_tempo=bpm)\<close>
  divides by the tempo, so a tempo of 0 raises ZeroDivisionError, which \<open>notes_to_midi\<close>
  logs and raises again.
\<close>

definition default_instrument :: int where
  "default_instrument = 0"

definition notes_to_midi :: "note_data list \<Rightarrow> int \<Rightarrow> py_error + pretty_midi" where
  "notes_to_midi notes bpm =
     (if bpm = 0 then Inl ZeroDivisionError
      else Inr \<lparr>initial_tempo = bpm,
                instruments = [\<lparr>program = default_instrument, inst_notes = notes\<rparr>]\<rparr>)"

section \<open>PatternGenerator\<close>

text \<open>
  The language model (tokenizer, GPT-2 and the sampler of torch) is outside the repository.
  \<open>_generate_text\<close> is a parameter: from the state of the sampler's random generator, the
  prompt and the temperature it returns the decoded text or raises.
\<close>

type_synonym 't language_model = "'t \<Rightarrow> string \<Rightarrow> rat \<Rightarrow> py_error + string"

text \<open>Two models for worked examples: one that always raises, and one whose text has
  neither a digit nor a letter.\<close>

definition failing_model :: "unit language_model" where
  "failing_model ts prompt temperature = Inl LibraryError"

definition silent_model :: "unit language_model" where
  "silent_model ts prompt temperature = Inr ''--''"

text \<open>A model whose text has no digit and, in its second half, four letters.\<close>

definition letters_model :: "unit language_model" where
  "letters_model ts prompt temperature = Inr ''    abcd''"

definition mood_descriptions :: "(string \<times> string) list" where
  "mood_descriptions =
     [(''happy'', ''uplifting, bright, and joyful''),
      (''calm'', ''peaceful, serene, and gentle''),
      (''energetic'', ''dynamic, powerful, and exciting''),
      (''dark'', ''mysterious, somber, and intense''),
      (''ambient'', ''atmospheric, spacious, and ethereal''),
      (''chaotic'', ''unpredictable, wild, and intense''),
      (''epic'', ''grand, heroic, and dramatic''),
      (''melancholic'', ''sad, reflective, and emotional'')]"

definition create_prompt :: "string \<Rightarrow> string \<Rightarrow> int \<Rightarrow> string" where
  "create_prompt key mood num_notes =
     (let description = (case map_of mood_descriptions mood of
                           Some d \<Rightarrow> d
                         | None \<Rightarrow> ''musical'')
      in ''Music composition in '' @ key @ '' with '' @ description @ '' character.''
         @ [CHR 0x0A] @ ''Arpeggio pattern: '')"

subsection \<open>Extraction\<close>

text \<open>The decimal digits 0 to 9: the class \<open>\\d\<close> and the characters that \<open>int\<close>
  accepts.\<close>

definition is_decimal :: "char \<Rightarrow> bool" where
  "is_decimal c = (48 \<le> (of_char c :: nat) \<and> (of_char c :: nat) \<le> 57)"

text \<open>\<open>str.isdigit\<close> holds also of the superscripts U+00B2, U+00B3 and U+00B9.\<close>

definition isdigit :: "char \<Rightarrow> bool" where
  "isdigit c =
     (is_decimal c \<or> (of_char c :: nat) = 178 \<or> (of_char c :: nat) = 179
      \<or> (of_char c :: nat) = 185)"

text \<open>\<open>str.isalpha\<close>: the ASCII letters, the ordinal indicators U+00AA and U+00BA, the
  micro sign U+00B5, and U+00C0 to U+00FF without the signs U+00D7 and U+00F7.\<close>

definition isalpha :: "char \<Rightarrow> bool" where
  "isalpha c =
     (is_upper c \<or> is_lower c
      \<or> (of_char c :: nat) = 170 \<or> (of_char c :: nat) = 181 \<or> (of_char c :: nat) = 186
      \<or> (192 \<le> (of_char c :: nat) \<and> (of_char c :: nat) \<noteq> 215 \<and> (of_char c :: nat) \<noteq> 247))"

definition ord :: "char \<Rightarrow> int" where
  "ord c = int (of_char c)"

text \<open>\<open>int(m)\<close> on a string of decimal digits, as the matches of \<open>\\d+\<close> are.\<close>

definition int_of_digits :: "string \<Rightarrow> int" where
  "int_of_digits m = foldl (\<lambda>a c. 10 * a + (ord c - 48)) 0 m"

text \<open>\<open>re.findall(r'\\d+', text)\<close>: the maximal runs of digits, left to right; \<open>cur\<close> is
  the run being read.\<close>

fun findall_digits :: "string \<Rightarrow> string \<Rightarrow> string list" where
  "findall_digits cur [] = (if cur = [] then [] else [cur])"
| "findall_digits cur (c # cs) =
     (if is_decimal c then findall_digits (cur @ [c]) cs
      else (if cur = [] then [] else [cur]) @ findall_digits [] cs)"

text \<open>The slice \<open>xs[:k]\<close>; a negative \<open>k\<close> drops the last \<open>-k\<close> elements.\<close>

definition py_take :: "int \<Rightarrow> 'a list \<Rightarrow> 'a list" where
  "py_take k xs = (if 0 \<le> k then take (nat k) xs else take (length xs - nat (- k)) xs)"

text \<open>The slice \<open>xs[k:]\<close> for \<open>k \<ge> 0\<close>, as in \<open>text[len(text)//2:]\<close>.\<close>

definition py_drop :: "nat \<Rightarrow> 'a list \<Rightarrow> 'a list" where
  "py_drop k xs = drop k xs"

text \<open>The padding loop \<open>while len(intervals) < num_notes\<close>. On an empty list it never
  ends, which is the value \<open>None\<close>.\<close>

partial_function (option) pad_loop :: "int \<Rightarrow> int list \<Rightarrow> int list option" where
  "pad_loop num_notes intervals =
     (if int (length intervals) < num_notes
      then pad_loop num_notes
             (intervals @ py_take (num_notes - int (length intervals)) intervals)
      else Some intervals)"

text \<open>\<open>int(char)\<close> on one character: a character that is not a decimal digit raises
  ValueError.\<close>

definition int_of_char :: "char \<Rightarrow> py_error + int" where
  "int_of_char c = (if is_decimal c then Inr (int_of_digits [c]) else Inl ValueError)"

text \<open>The scan of the second half of the text, one character at a time, with the
  \<open>break\<close> once \<open>num_notes\<close> values are collected. A superscript digit passes
  \<open>isdigit\<close> and makes \<open>int\<close> raise.\<close>

fun scan_chars :: "int \<Rightarrow> string \<Rightarrow> int list \<Rightarrow> py_error + int list" where
  "scan_chars num_notes [] intervals = Inr intervals"
| "scan_chars num_notes (c # cs) intervals =
     (case (if isdigit c then
              (case int_of_char c of
                 Inl e \<Rightarrow> Inl e
               | Inr v \<Rightarrow> Inr (intervals @ [v mod 8]))
            else if isalpha c then Inr (intervals @ [ord (lower c) mod 8])
            else Inr intervals) of
        Inl e \<Rightarrow> Inl e
      | Inr intervals' \<Rightarrow>
          if int (length intervals') \<ge> num_notes then Inr intervals'
          else scan_chars num_notes cs intervals')"

text \<open>The result is \<open>None\<close> when the padding loop does not end and \<open>Some (Inl e)\<close> when
  the extraction raises \<open>e\<close>.\<close>

definition extract_intervals :: "string \<Rightarrow> int \<Rightarrow> (py_error + int list) option" where
  "extract_intervals text num_notes =
     (let matches = findall_digits [] text
      in if matches \<noteq> [] then
           (case pad_loop num_notes
                   (map (\<lambda>m. int_of_digits m mod 8) (py_take num_notes matches)) of
              None \<Rightarrow> None
            | Some intervals \<Rightarrow> Some (Inr (py_take num_notes intervals)))
         else
           (case scan_chars num_notes (py_drop (length text div 2) text) [] of
              Inl e \<Rightarrow> Some (Inl e)
            | Inr intervals \<Rightarrow>
                Some (Inr (if intervals \<noteq> [] then py_take num_notes intervals else []))))"

text \<open>The reference for the padding and the fallback: the first \<open>n\<close> values of the
  endless repetition of \<open>xs\<close>.\<close>

definition cyclic_repeat :: "'a list \<Rightarrow> nat \<Rightarrow> 'a list" where
  "cyclic_repeat xs n = map (\<lambda>i. xs ! (i mod length xs)) [0..<n]"

subsection \<open>Fallback patterns\<close>

definition patterns :: "(string \<times> int list) list" where
  "patterns =
     [(''happy'', [0, 2, 4, 7, 4, 2]),
      (''calm'', [0, 2, 4, 2, 0]),
      (''energetic'', [0, 4, 7, 12, 7, 4, 0, -5]),
      (''dark'', [0, 3, 5, 7, 5, 3]),
      (''ambient'', [0, 4, 7, 11, 7, 4]),
      (''chaotic'', [0, 6, 2, 7, 1, 5, 3, 4]),
      (''epic'', [0, 3, 7, 10, 7, 3]),
      (''melancholic'', [0, 3, 5, 8, 5, 3])]"

text \<open>\<open>while len(intervals) < num_notes: intervals.extend(base_pattern)\<close>; with an empty
  base pattern it would never end.\<close>

partial_function (option) fallback_loop :: "int list \<Rightarrow> int \<Rightarrow> int list \<Rightarrow> int list option" where
  "fallback_loop base_pattern num_notes intervals =
     (if int (length intervals) < num_notes
      then fallback_loop base_pattern num_notes (intervals @ base_pattern)
      else Some intervals)"

definition fallback_pattern :: "string \<Rightarrow> int \<Rightarrow> int list option" where
  "fallback_pattern mood num_notes =
     (let base_pattern = (case map_of patterns mood of
                            Some p \<Rightarrow> p
                          | None \<Rightarrow> [0, 2, 4, 5, 7])
      in case fallback_loop base_pattern num_notes [] of
           None \<Rightarrow> None
         | Some intervals \<Rightarrow> Some (py_take num_notes intervals))"

subsection \<open>The generator\<close>

text \<open>The result is \<open>None\<close> when a loop does not end. Every exception of the \<open>try\<close> block
  is caught and answered with the fallback pattern.\<close>

definition generate_interval_pattern ::
  "'t language_model \<Rightarrow> 't \<Rightarrow> string \<Rightarrow> string \<Rightarrow> int \<Rightarrow> rat \<Rightarrow> int list option" where
  "generate_interval_pattern generate_text ts key mood num_notes temperature =
     (let prompt = create_prompt key mood num_notes
      in case generate_text ts prompt temperature of
           Inl e \<Rightarrow> fallback_pattern mood num_notes
         | Inr generated_text \<Rightarrow>
             (case extract_intervals generated_text num_notes of
                None \<Rightarrow> None
              | Some (Inl e) \<Rightarrow> fallback_pattern mood num_notes
              | Some (Inr intervals) \<Rightarrow>
                  if intervals = [] \<or> int (length intervals) < num_notes div 2
                  then fallback_pattern mood num_notes
                  else Some intervals))"

section \<open>HybridMusicGenerator\<close>

text \<open>
  The collaborators of one generator: the scale library, the language model, the three
  seeding functions and the MIDI writer behind \<open>midi_to_bytes\<close>. \<open>random.seed\<close> takes
  every integer; \<open>np.random.seed\<close> and \<open>torch.manual_seed\<close> raise on a seed outside their
  range. numpy's generator is seeded and never read, so it has no state here. The state
  that a request reads and writes is the pair of the other two generators.
\<close>

record ('p, 't) collaborators =
  scale_lib :: "'p music21"
  generate_text :: "'t language_model"
  random_seed :: "int \<Rightarrow> rng"
  numpy_random_seed :: "int \<Rightarrow> py_error + unit"
  torch_manual_seed :: "int \<Rightarrow> py_error + 't"
  midi_write :: "pretty_midi \<Rightarrow> nat list"

record 't gen_state =
  py_random :: rng
  torch_random :: 't

definition generate_ai_pattern ::
  "('p, 't) collaborators \<Rightarrow> 't gen_state \<Rightarrow> string \<Rightarrow> string \<Rightarrow> int \<Rightarrow> int list option" where
  "generate_ai_pattern env st key mood num_bars =
     (let config = mood_configs_get mood;
          notes_per_bar = get_notes_per_bar (note_density config);
          num_notes = notes_per_bar * num_bars
      in generate_interval_pattern (generate_text env) (torch_random st) key mood num_notes 0.8)"

text \<open>The first statement of \<open>generate_arpeggio\<close>: with a seed, the three generators
  are seeded, in this order, before anything is drawn.\<close>

definition seed_generators ::
  "('p, 't) collaborators \<Rightarrow> 't gen_state \<Rightarrow> int option \<Rightarrow> py_error + 't gen_state" where
  "seed_generators env st0 seed =
     (case seed of
        None \<Rightarrow> Inr st0
      | Some sd \<Rightarrow>
          (case numpy_random_seed env sd of
             Inl e \<Rightarrow> Inl e
           | Inr u \<Rightarrow>
               (case torch_manual_seed env sd of
                  Inl e \<Rightarrow> Inl e
                | Inr ts \<Rightarrow> Inr \<lparr>py_random = random_seed env sd, torch_random = ts\<rparr>)))"

text \<open>\<open>generate_arpeggio\<close> returns \<open>None\<close> when it does not return, \<open>Some (Inl e)\<close>
  when it raises \<open>e\<close>, and otherwise the MIDI object, the description and the random
  generator it leaves behind.\<close>

definition generate_arpeggio ::
  "('p, 't) collaborators \<Rightarrow> 't gen_state \<Rightarrow> string \<Rightarrow> string \<Rightarrow> int \<Rightarrow> int \<Rightarrow> string
   \<Rightarrow> int option \<Rightarrow> (py_error + ((pretty_midi \<times> string) \<times> rng)) option" where
  "generate_arpeggio env st0 key mood bpm num_bars pattern_style seed =
     (case seed_generators env st0 seed of
        Inl e \<Rightarrow> Some (Inl e)
      | Inr st \<Rightarrow>
          let step1 = (if pattern_style = ''ai-generated''
                       then (case generate_ai_pattern env st key mood num_bars of
                               None \<Rightarrow> None
                             | Some intervals \<Rightarrow> Some (Inr (intervals, py_random st)))
                       else Some (create_pattern_from_style pattern_style key mood num_bars
                                    (py_random st)))
          in (case step1 of
                None \<Rightarrow> None
              | Some (Inl e) \<Rightarrow> Some (Inl e)
              | Some (Inr (intervals, g1)) \<Rightarrow>
                  (case create_arpeggio_from_intervals (scale_lib env) key mood intervals
                          num_bars bpm g1 of
                     Inl e \<Rightarrow> Some (Inl e)
                   | Inr (notes, g2) \<Rightarrow>
                       (case notes_to_midi notes bpm of
                          Inl e \<Rightarrow> Some (Inl e)
                        | Inr midi \<Rightarrow>
                            Some (Inr ((midi, get_mood_description mood intervals), g2))))))"

definition midi_to_bytes :: "('p, 't) collaborators \<Rightarrow> pretty_midi \<Rightarrow> nat list" where
  "midi_to_bytes env midi = midi_write env midi"

text \<open>The handler of \<open>POST /api/generate/midi\<close>: the bytes of the generated MIDI.\<close>

definition generate_arpeggio_midi ::
  "('p, 't) collaborators \<Rightarrow> 't gen_state \<Rightarrow> string \<Rightarrow> string \<Rightarrow> int \<Rightarrow> int \<Rightarrow> string
   \<Rightarrow> int option \<Rightarrow> (py_error + nat list) option" where
  "generate_arpeggio_midi env st0 key mood bpm num_bars pattern_style seed =
     (case generate_arpeggio env st0 key mood bpm num_bars pattern_style seed of
        None \<Rightarrow> None
      | Some (Inl e) \<Rightarrow> Some (Inl e)
      | Some (Inr ((midi, description), g)) \<Rightarrow> Some (Inr (midi_to_bytes env midi)))"

section \<open>Properties of the renderer\<close>

lemma map_of_happy: "map_of mood_configs ''happy'' = Some happy_config"
  by (simp add: mood_configs_def)

lemma mood_configs_get_cases:
  "mood_configs_get mood \<in> {happy_config, calm_config, energetic_config, dark_config,
      ambient_config, chaotic_config, epic_config, melancholic_config}"
  by (simp add: mood_configs_get_def mood_configs_def)

lemma mood_configs_get_unknown:
  "mood \<notin> set (map fst mood_configs) \<Longrightarrow> mood_configs_get mood = happy_config"
  by (simp add: mood_configs_get_def mood_configs_def)

lemma mood_configs_get_happy: "mood_configs_get ''happy'' = happy_config"
  by (simp add: mood_configs_get_def mood_configs_def)

lemma config_ranges:
  "fst (octave_range (mood_configs_get mood)) \<le> snd (octave_range (mood_configs_get mood))"
  "fst (velocity_range (mood_configs_get mood)) \<le> snd (velocity_range (mood_configs_get mood))"
  using mood_configs_get_cases [of mood]
  by (auto simp: happy_config_def calm_config_def energetic_config_def dark_config_def
      ambient_config_def chaotic_config_def epic_config_def melancholic_config_def)

lemma config_rhythms:
  "rhythm_patterns (mood_configs_get mood) \<noteq> []"
  "rp \<in> set (rhythm_patterns (mood_configs_get mood)) \<Longrightarrow> rp \<noteq> [] \<and> (\<forall>d\<in>set rp. 0 < d)"
  using mood_configs_get_cases [of mood]
  by (auto simp: happy_config_def calm_config_def energetic_config_def dark_config_def
      ambient_config_def chaotic_config_def epic_config_def melancholic_config_def)

lemma notes_per_bar_pos: "0 < get_notes_per_bar d"
  by (simp add: get_notes_per_bar_def)

lemma randint_ok:
  assumes "a \<le> b"
  shows "\<exists>v g'. randint a b g = Inr (v, g') \<and> a \<le> v \<and> v \<le> b"
proof -
  let ?k = "draws g (pos g) mod nat (b - a + 1)"
  have "?k < nat (b - a + 1)"
    using assms by simp
  then have "int ?k < b - a + 1"
    using assms by linarith
  then show ?thesis
    using assms by (simp add: randint_def randbelow_def)
qed

lemma choice_ok:
  assumes "xs \<noteq> []"
  shows "choice xs g = Inr (xs ! (draws g (pos g) mod length xs), g\<lparr>pos := Suc (pos g)\<rparr>)"
    and "xs ! (draws g (pos g) mod length xs) \<in> set xs"
  using assms by (simp_all add: choice_def randbelow_def)

lemma render_loop_times:
  assumes "intervals \<noteq> []" and "scale_notes \<noteq> []" and "rhythm \<noteq> []"
    and "fst (octave_range c) \<le> snd (octave_range c)"
    and "fst (velocity_range c) \<le> snd (velocity_range c)"
  shows "\<exists>new g'. render_loop c intervals scale_notes rhythm idxs acc t g = Inr (acc @ new, g')
           \<and> length new = length idxs
           \<and> (\<forall>k<length idxs.
                 start (new ! k) =
                   t + sum_list (take k (map (\<lambda>i. rhythm ! (i mod length rhythm)) idxs))
               \<and> end_time (new ! k) =
                   start (new ! k) + rhythm ! ((idxs ! k) mod length rhythm))"
proof (induction idxs arbitrary: acc t g)
  case Nil
  then show ?case by simp
next
  case (Cons i rest)
  let ?d = "rhythm ! (i mod length rhythm)"
  obtain r g1 where r: "randint (fst (octave_range c)) (snd (octave_range c)) g = Inr (r, g1)"
    using randint_ok [OF assms(4)] by blast
  obtain vel g2 where v: "randint (fst (velocity_range c)) (snd (velocity_range c)) g1 = Inr (vel, g2)"
    using randint_ok [OF assms(5)] by blast
  let ?n = "\<lparr>pitch = max 21 (min 108 (scale_notes !
                nat (intervals ! (i mod length intervals) mod int (length scale_notes)) + r * 12)),
             start = t, end_time = t + ?d, velocity = vel\<rparr>"
  have step: "render_loop c intervals scale_notes rhythm (i # rest) acc t g =
              render_loop c intervals scale_notes rhythm rest (acc @ [?n]) (t + ?d) g2"
    using assms r v by simp
  obtain new g' where ih:
    "render_loop c intervals scale_notes rhythm rest (acc @ [?n]) (t + ?d) g2 = Inr ((acc @ [?n]) @ new, g')"
    "length new = length rest"
    "\<forall>k<length rest. start (new ! k) =
         (t + ?d) + sum_list (take k (map (\<lambda>i. rhythm ! (i mod length rhythm)) rest))
       \<and> end_time (new ! k) = start (new ! k) + rhythm ! ((rest ! k) mod length rhythm)"
    using Cons.IH [of "acc @ [?n]" "t + ?d" g2] by blast
  have times: "start ((?n # new) ! k) =
         t + sum_list (take k (map (\<lambda>i. rhythm ! (i mod length rhythm)) (i # rest)))
       \<and> end_time ((?n # new) ! k) = start ((?n # new) ! k) + rhythm ! (((i # rest) ! k) mod length rhythm)"
    if "k < length (i # rest)" for k
  proof (cases k)
    case 0
    then show ?thesis by simp
  next
    case (Suc j)
    then have "j < length rest" using that by simp
    then show ?thesis using ih(3) Suc by (simp add: add.assoc)
  qed
  show ?case
  proof (intro exI conjI)
    show "render_loop c intervals scale_notes rhythm (i # rest) acc t g = Inr (acc @ (?n # new), g')"
      using step ih(1) by simp
    show "length (?n # new) = length (i # rest)" using ih(2) by simp
    show "\<forall>k<length (i # rest). start ((?n # new) ! k) =
         t + sum_list (take k (map (\<lambda>i. rhythm ! (i mod length rhythm)) (i # rest)))
       \<and> end_time ((?n # new) ! k) = start ((?n # new) ! k) + rhythm ! (((i # rest) ! k) mod length rhythm)"
      using times by blast
  qed
qed

lemma create_arpeggio_render:
  assumes "intervals \<noteq> []"
    and "get_scale_notes lib key (scale_type (mood_configs_get mood)) \<noteq> []"
  shows "\<exists>rp g1 notes g'.
           choice (rhythm_patterns (mood_configs_get mood)) g = Inr (rp, g1)
         \<and> rp \<noteq> [] \<and> (\<forall>d\<in>set rp. 0 < d)
         \<and> create_arpeggio_from_intervals lib key mood intervals num_bars bpm g = Inr (notes, g')
         \<and> length notes =
             nat (get_notes_per_bar (note_density (mood_configs_get mood)) * num_bars)
         \<and> (\<forall>k<length notes.
               start (notes ! k) = sum_list (map (\<lambda>i. rp ! (i mod length rp)) [0..<k])
             \<and> end_time (notes ! k) = start (notes ! k) + rp ! (k mod length rp))"
proof -
  let ?c = "mood_configs_get mood"
  let ?n = "nat (get_notes_per_bar (note_density ?c) * num_bars)"
  let ?rp = "rhythm_patterns ?c ! (draws g (pos g) mod length (rhythm_patterns ?c))"
  let ?g1 = "g\<lparr>pos := Suc (pos g)\<rparr>"
  have ch: "choice (rhythm_patterns ?c) g = Inr (?rp, ?g1)"
    and mem: "?rp \<in> set (rhythm_patterns ?c)"
    using choice_ok [OF config_rhythms(1)] by blast+
  have rp: "?rp \<noteq> []" "\<forall>d\<in>set ?rp. 0 < d"
    using config_rhythms(2) [OF mem] by blast+
  obtain new g' where loop:
    "render_loop ?c intervals (get_scale_notes lib key (scale_type ?c)) ?rp [0..<?n] [] 0 ?g1
       = Inr ([] @ new, g')"
    "length new = length [0..<?n]"
    "\<forall>k<length [0..<?n].
        start (new ! k) = 0 + sum_list (take k (map (\<lambda>i. ?rp ! (i mod length ?rp)) [0..<?n]))
      \<and> end_time (new ! k) = start (new ! k) + ?rp ! (([0..<?n] ! k) mod length ?rp)"
    using render_loop_times [OF assms(1) assms(2) rp(1) config_ranges(1) config_ranges(2)]
    by blast
  have res: "create_arpeggio_from_intervals lib key mood intervals num_bars bpm g = Inr (new, g')"
    using ch loop(1) by (simp add: create_arpeggio_from_intervals_def Let_def)
  have len: "length new = ?n" using loop(2) by simp
  have times: "start (new ! k) = sum_list (map (\<lambda>i. ?rp ! (i mod length ?rp)) [0..<k])
             \<and> end_time (new ! k) = start (new ! k) + ?rp ! (k mod length ?rp)"
    if "k < length new" for k
  proof -
    have k: "k < ?n" using that len by simp
    have "take k (map (\<lambda>i. ?rp ! (i mod length ?rp)) [0..<?n])
            = map (\<lambda>i. ?rp ! (i mod length ?rp)) [0..<k]"
      using k by (simp add: take_map)
    then show ?thesis using loop(3) k by simp
  qed
  show ?thesis
    using ch rp res len times by blast
qed

lemma strict_steps:
  fixes f :: "nat \<Rightarrow> rat"
  assumes "\<forall>i. Suc i < n \<longrightarrow> f i < f (Suc i)" and "i < j" and "j < n"
  shows "f i < f j"
  using assms(2,3)
proof (induction j)
  case 0
  then show ?case by simp
next
  case (Suc j)
  show ?case
  proof (cases "i = j")
    case True
    then show ?thesis using assms(1) Suc.prems by simp
  next
    case False
    then have "f i < f j" using Suc by simp
    moreover have "f j < f (Suc j)" using assms(1) Suc.prems by simp
    ultimately show ?thesis by simp
  qed
qed

text \<open>
  Claim C4. With a non-empty interval list and a non-empty scale, the renderer returns, and
  its notes are contiguous in time and strictly ordered: every note ends where the next one
  starts, every note ends after it starts, and the start times increase strictly.
\<close>

theorem create_arpeggio_contiguous:
  assumes "intervals \<noteq> []"
    and "get_scale_notes lib key (scale_type (mood_configs_get mood)) \<noteq> []"
  shows "\<exists>notes g'.
           create_arpeggio_from_intervals lib key mood intervals num_bars bpm g = Inr (notes, g')
         \<and> (\<forall>i. Suc i < length notes \<longrightarrow> end_time (notes ! i) = start (notes ! Suc i))
         \<and> (\<forall>i<length notes. start (notes ! i) < end_time (notes ! i))
         \<and> (\<forall>i j. i < j \<and> j < length notes \<longrightarrow> start (notes ! i) < start (notes ! j))"
proof -
  obtain rp g1 ns g' where
    ch: "choice (rhythm_patterns (mood_configs_get mood)) g = Inr (rp, g1)"
    and rp: "rp \<noteq> []" "\<forall>d\<in>set rp. 0 < d"
    and res: "create_arpeggio_from_intervals lib key mood intervals num_bars bpm g = Inr (ns, g')"
    and times: "\<forall>k<length ns.
               start (ns ! k) = sum_list (map (\<lambda>i. rp ! (i mod length rp)) [0..<k])
             \<and> end_time (ns ! k) = start (ns ! k) + rp ! (k mod length rp)"
    using create_arpeggio_render [OF assms, where num_bars = num_bars and bpm = bpm and g = g]
    by blast
  have pos: "0 < rp ! (k mod length rp)" for k
    using rp by simp
  have contig: "\<forall>i. Suc i < length ns \<longrightarrow> end_time (ns ! i) = start (ns ! Suc i)"
    using times by simp
  have dur: "\<forall>i<length ns. start (ns ! i) < end_time (ns ! i)"
    using times pos by simp
  have step: "\<forall>i. Suc i < length ns \<longrightarrow> start (ns ! i) < start (ns ! Suc i)"
    using contig dur by (metis Suc_lessD)
  have incr: "\<forall>i j. i < j \<and> j < length ns \<longrightarrow> start (ns ! i) < start (ns ! j)"
    using strict_steps [OF step] by blast
  show ?thesis using res contig dur incr by blast
qed

text \<open>
  Claim C5. With a non-empty interval list, a non-empty scale and a bar count that is not
  negative, the renderer returns exactly \<open>notes_per_bar \<times> num_bars\<close> notes, where the
  densities very_low, low, medium, high and very_high give 2, 4, 8, 16 and 32 notes per bar.
\<close>

theorem create_arpeggio_note_count:
  assumes "intervals \<noteq> []"
    and "get_scale_notes lib key (scale_type (mood_configs_get mood)) \<noteq> []"
    and "0 \<le> num_bars"
  shows "\<exists>notes g'.
           create_arpeggio_from_intervals lib key mood intervals num_bars bpm g = Inr (notes, g')
         \<and> int (length notes)
             = get_notes_per_bar (note_density (mood_configs_get mood)) * num_bars
         \<and> get_notes_per_bar ''very_low'' = 2 \<and> get_notes_per_bar ''low'' = 4
         \<and> get_notes_per_bar ''medium'' = 8 \<and> get_notes_per_bar ''high'' = 16
         \<and> get_notes_per_bar ''very_high'' = 32"
proof -
  obtain ns g' where
    res: "create_arpeggio_from_intervals lib key mood intervals num_bars bpm g = Inr (ns, g')"
    and len: "length ns =
             nat (get_notes_per_bar (note_density (mood_configs_get mood)) * num_bars)"
    using create_arpeggio_render [OF assms(1,2), where num_bars = num_bars and bpm = bpm and g = g]
    by blast
  have "0 \<le> get_notes_per_bar (note_density (mood_configs_get mood)) * num_bars"
    using notes_per_bar_pos [of "note_density (mood_configs_get mood)"] assms(3) by simp
  then have "int (length ns)
             = get_notes_per_bar (note_density (mood_configs_get mood)) * num_bars"
    using len by simp
  moreover have "get_notes_per_bar ''very_low'' = 2 \<and> get_notes_per_bar ''low'' = 4
         \<and> get_notes_per_bar ''medium'' = 8 \<and> get_notes_per_bar ''high'' = 16
         \<and> get_notes_per_bar ''very_high'' = 32"
    by (simp add: get_notes_per_bar_def)
  ultimately show ?thesis using res by blast
qed

lemma table_scales_C_major:
  "get_scale_notes table_scales ''C'' ''major'' =
     [48, 50, 52, 53, 55, 57, 59, 60, 62, 64, 65, 67, 69, 71, 72, 74, 76, 77, 79, 81, 83, 84,
      86, 88, 89, 91, 93, 95, 96]"
  by (simp add: get_scale_notes_def scale_of_def table_scales_def key_map_def)

lemma calm_scale_type: "scale_type (mood_configs_get ''calm'') = ''major''"
  by (simp add: mood_configs_get_def mood_configs_def calm_config_def)

text \<open>C4 on an instance: the mood calm in C, one bar, the intervals 7, 6, 5, 4.\<close>

theorem create_arpeggio_contiguous_witness:
  "[7, 6, 5, 4] \<noteq> ([] :: int list)
   \<and> get_scale_notes table_scales ''C'' (scale_type (mood_configs_get ''calm'')) \<noteq> []
   \<and> (\<exists>notes g'.
         create_arpeggio_from_intervals table_scales ''C'' ''calm'' [7, 6, 5, 4] 1 120
           example_rng = Inr (notes, g')
       \<and> (\<forall>i. Suc i < length notes \<longrightarrow> end_time (notes ! i) = start (notes ! Suc i))
       \<and> (\<forall>i<length notes. start (notes ! i) < end_time (notes ! i))
       \<and> (\<forall>i j. i < j \<and> j < length notes \<longrightarrow> start (notes ! i) < start (notes ! j)))"
proof -
  have h1: "[7, 6, 5, 4] \<noteq> ([] :: int list)" by simp
  have h2: "get_scale_notes table_scales ''C'' (scale_type (mood_configs_get ''calm'')) \<noteq> []"
    by (simp add: calm_scale_type table_scales_C_major)
  show ?thesis
    using h1 h2 create_arpeggio_contiguous [OF h1 h2] by blast
qed

text \<open>C5 on the same instance: one bar of the mood calm has four notes.\<close>

theorem create_arpeggio_note_count_witness:
  "[7, 6, 5, 4] \<noteq> ([] :: int list)
   \<and> get_scale_notes table_scales ''C'' (scale_type (mood_configs_get ''calm'')) \<noteq> []
   \<and> (0::int) \<le> 1
   \<and> (\<exists>notes g'.
         create_arpeggio_from_intervals table_scales ''C'' ''calm'' [7, 6, 5, 4] 1 120
           example_rng = Inr (notes, g')
       \<and> length notes = 4)"
proof -
  have h1: "[7, 6, 5, 4] \<noteq> ([] :: int list)" by simp
  have h2: "get_scale_notes table_scales ''C'' (scale_type (mood_configs_get ''calm'')) \<noteq> []"
    by (simp add: calm_scale_type table_scales_C_major)
  have h3: "(0::int) \<le> 1" by simp
  have d: "get_notes_per_bar (note_density (mood_configs_get ''calm'')) = 4"
    by (simp add: mood_configs_get_def mood_configs_def calm_config_def get_notes_per_bar_def)
  obtain ns g' where
    "create_arpeggio_from_intervals table_scales ''C'' ''calm'' [7, 6, 5, 4] 1 120
           example_rng = Inr (ns, g')"
    "int (length ns) = get_notes_per_bar (note_density (mood_configs_get ''calm'')) * 1"
    using create_arpeggio_note_count [OF h1 h2 h3] by blast
  then show ?thesis using h1 h2 d by simp
qed

section \<open>Properties of the patterns and of seeding\<close>

lemma toggle_parity:
  "even (Suc a div 8) = (if (a + 1) mod 8 = 0 then \<not> even (a div 8) else even (a div 8))"
  by presburger

lemma alternating_loop_closed:
  "alternating_loop [a..<a + n] (even (a div 8)) acc =
     acc @ map (\<lambda>i. if even (i div 8) then int i mod 8 else 7 - int i mod 8) [a..<a + n]"
proof (induction n arbitrary: a acc)
  case 0
  then show ?case by simp
next
  case (Suc n)
  have split: "[a..<a + Suc n] = a # [Suc a..<Suc a + n]"
    by (simp add: upt_conv_Cons)
  have flag: "(if (a + 1) mod 8 = 0 then \<not> even (a div 8) else even (a div 8)) = even (Suc a div 8)"
    using toggle_parity [of a] by simp
  show ?case
    unfolding split alternating_loop.simps flag
    using Suc.IH [of "Suc a"] by simp
qed

text \<open>
  Claim C9. The style patterns are the reference sequences: \<open>i mod 8\<close> for ascending,
  \<open>7 - i mod 8\<close> for descending, and for alternating an ascending run of eight followed
  by a descending run of eight, again and again, whatever the number of notes. For the mood
  calm, one bar and the style descending the pattern is 7, 6, 5, 4.
\<close>

theorem create_pattern_from_style_reference:
  "create_pattern_from_style ''ascending'' key mood num_bars g =
     Inr (map (\<lambda>i. int i mod 8)
            [0..<nat (get_notes_per_bar (note_density (mood_configs_get mood)) * num_bars)], g)
   \<and> create_pattern_from_style ''descending'' key mood num_bars g =
     Inr (map (\<lambda>i. 7 - int i mod 8)
            [0..<nat (get_notes_per_bar (note_density (mood_configs_get mood)) * num_bars)], g)
   \<and> create_pattern_from_style ''alternating'' key mood num_bars g =
     Inr (map (\<lambda>i. if even (i div 8) then int i mod 8 else 7 - int i mod 8)
            [0..<nat (get_notes_per_bar (note_density (mood_configs_get mood)) * num_bars)], g)
   \<and> alternating_loop [0..<total_notes] True [] =
       map (\<lambda>i. if even (i div 8) then int i mod 8 else 7 - int i mod 8) [0..<total_notes]
   \<and> get_notes_per_bar (note_density (mood_configs_get ''calm'')) = 4
   \<and> create_pattern_from_style ''descending'' key ''calm'' 1 g = Inr ([7, 6, 5, 4], g)"
proof -
  have alt: "alternating_loop [0..<n] True [] =
       map (\<lambda>i. if even (i div 8) then int i mod 8 else 7 - int i mod 8) [0..<n]" for n
    using alternating_loop_closed [of 0 n "[]"] by simp
  have calm: "get_notes_per_bar (note_density (mood_configs_get ''calm'')) = 4"
    by (simp add: mood_configs_get_def mood_configs_def calm_config_def get_notes_per_bar_def)
  have ex: "create_pattern_from_style ''descending'' key ''calm'' 1 g = Inr ([7, 6, 5, 4], g)"
    by (simp add: create_pattern_from_style_def calm Let_def upt_conv_Cons)
  show ?thesis
    using alt calm ex by (simp add: create_pattern_from_style_def Let_def)
qed

text \<open>
  Claim C7. With a seed, a generation does not depend on the state in which it finds the
  random generators: two calls with the same parameters and the same seed have the same
  outcome, that is the same MIDI object (and so the same notes), description and final
  generator, and the same serialized bytes.
\<close>

theorem generate_arpeggio_seed_reproducible:
  "generate_arpeggio env st1 key mood bpm num_bars pattern_style (Some seed) =
     generate_arpeggio env st2 key mood bpm num_bars pattern_style (Some seed)
   \<and> generate_arpeggio_midi env st1 key mood bpm num_bars pattern_style (Some seed) =
     generate_arpeggio_midi env st2 key mood bpm num_bars pattern_style (Some seed)"
proof -
  have "seed_generators env st1 (Some seed) = seed_generators env st2 (Some seed)"
    by (simp add: seed_generators_def)
  then show ?thesis
    by (simp add: generate_arpeggio_def generate_arpeggio_midi_def)
qed

section \<open>Properties of the scale resolver\<close>

lemma scale_window:
  fixes m :: int
  assumes "0 \<le> m" and "m \<le> 120"
  shows "\<exists>octave\<in>set [-1, 0, 1, 2]. 21 \<le> m + octave * 12 \<and> m + octave * 12 \<le> 108"
proof -
  consider "m \<le> 8" | "9 \<le> m \<and> m \<le> 20" | "21 \<le> m \<and> m \<le> 108" | "109 \<le> m"
    by linarith
  then show ?thesis
  proof cases
    case 1
    then have "21 \<le> m + 2 * 12 \<and> m + 2 * 12 \<le> 108" using assms by linarith
    then show ?thesis by (intro bexI [of _ 2]) simp_all
  next
    case 2
    then have "21 \<le> m + 1 * 12 \<and> m + 1 * 12 \<le> 108" by linarith
    then show ?thesis by (intro bexI [of _ 1]) simp_all
  next
    case 3
    then have "21 \<le> m + 0 * 12 \<and> m + 0 * 12 \<le> 108" by linarith
    then show ?thesis by (intro bexI [of _ 0]) simp_all
  next
    case 4
    then have "21 \<le> m + (-1) * 12 \<and> m + (-1) * 12 \<le> 108" using assms by linarith
    then show ?thesis by (intro bexI [of _ "-1"]) simp_all
  qed
qed

lemma window_set:
  fixes midis octaves :: "int list"
  shows "set (sort (remdups (concat (map
                 (\<lambda>octave. filter (\<lambda>midi. 21 \<le> midi \<and> midi \<le> 108)
                              (map (\<lambda>p. p + octave * 12) midis))
                 octaves)))) =
         {p + octave * 12 | p octave. p \<in> set midis \<and> octave \<in> set octaves
             \<and> 21 \<le> p + octave * 12 \<and> p + octave * 12 \<le> 108}"
  by auto

lemma piano_pitches_props:
  fixes midis :: "int list"
  defines "ps \<equiv> sort (remdups (concat (map
                 (\<lambda>octave. filter (\<lambda>midi. 21 \<le> midi \<and> midi \<le> 108)
                              (map (\<lambda>p. p + octave * 12) midis))
                 [-1, 0, 1, 2])))"
  shows "sorted_wrt (<) ps" and "distinct ps" and "\<forall>p\<in>set ps. 21 \<le> p \<and> p \<le> 108"
    and "(\<exists>m\<in>set midis. 0 \<le> m \<and> m \<le> 120) \<Longrightarrow> ps \<noteq> []"
proof -
  have mem: "set ps = {p + octave * 12 | p octave. p \<in> set midis \<and> octave \<in> set [-1, 0, 1, 2]
             \<and> 21 \<le> p + octave * 12 \<and> p + octave * 12 \<le> 108}"
    unfolding ps_def by (rule window_set)
  show d: "distinct ps" unfolding ps_def by (simp only: distinct_sort distinct_remdups)
  have "sorted ps" unfolding ps_def by (rule sorted_sort)
  then show "sorted_wrt (<) ps" using d by (simp add: strict_sorted_iff)
  show "\<forall>p\<in>set ps. 21 \<le> p \<and> p \<le> 108" unfolding mem by blast
  show "ps \<noteq> []" if ex: "\<exists>m\<in>set midis. 0 \<le> m \<and> m \<le> 120"
  proof -
    obtain m where m: "m \<in> set midis" "0 \<le> m" "m \<le> 120" using ex by blast
    obtain octave where o: "octave \<in> set [-1, 0, 1, 2]"
        "21 \<le> m + octave * 12" "m + octave * 12 \<le> 108"
      using scale_window [OF m(2,3)] by blast
    have "m + octave * 12 \<in> set ps"
      unfolding mem using m(1) o by blast
    then show ?thesis by (metis empty_iff empty_set)
  qed
qed

lemma fallback_scale_props:
  "sorted_wrt (<) fallback_scale" "distinct fallback_scale"
  "\<forall>p\<in>set fallback_scale. 21 \<le> p \<and> p \<le> 108" "fallback_scale \<noteq> []"
  by (simp_all add: fallback_scale_def)

lemma get_scale_notes_cases:
  "(get_scale_notes lib key scale_ty = fallback_scale
      \<and> ((\<exists>e. parse_pitch lib key = Inl e)
         \<or> (\<exists>key_pitch e. parse_pitch lib key = Inr key_pitch
               \<and> scale_pitches_midi lib (scale_of scale_ty) key_pitch = Inl e)))
   \<or> (\<exists>key_pitch midis. parse_pitch lib key = Inr key_pitch
         \<and> scale_pitches_midi lib (scale_of scale_ty) key_pitch = Inr midis
         \<and> get_scale_notes lib key scale_ty = sort (remdups (concat (map
                 (\<lambda>octave. filter (\<lambda>midi. 21 \<le> midi \<and> midi \<le> 108)
                              (map (\<lambda>p. p + octave * 12) midis))
                 [-1, 0, 1, 2]))))"
  unfolding get_scale_notes_def
  by (cases "parse_pitch lib key";
      cases "scale_pitches_midi lib (scale_of scale_ty) (projr (parse_pitch lib key))")
     simp_all

text \<open>
  Claim C6. For every key and scale type \<open>get_scale_notes\<close> returns a strictly ascending
  list without duplicates whose pitches lie in 21..108; when parsing the key or building
  the scale raises, it returns the fallback scale 60, 62, 64, 65, 67, 69, 71, 72 and no
  error leaves it. The list is not empty as soon as the library's scale has a MIDI number
  in 0..120, which one of the four octave shifts brings into the piano range.
\<close>

theorem get_scale_notes_sound:
  "sorted_wrt (<) (get_scale_notes lib key scale_ty)
   \<and> distinct (get_scale_notes lib key scale_ty)
   \<and> (\<forall>p\<in>set (get_scale_notes lib key scale_ty). 21 \<le> p \<and> p \<le> 108)
   \<and> ((\<exists>e. parse_pitch lib key = Inl e) \<longrightarrow>
        get_scale_notes lib key scale_ty = [60, 62, 64, 65, 67, 69, 71, 72])
   \<and> (\<forall>key_pitch. parse_pitch lib key = Inr key_pitch
         \<and> (\<exists>e. scale_pitches_midi lib (scale_of scale_ty) key_pitch = Inl e) \<longrightarrow>
        get_scale_notes lib key scale_ty = [60, 62, 64, 65, 67, 69, 71, 72])
   \<and> ((\<forall>key_pitch midis. parse_pitch lib key = Inr key_pitch
         \<and> scale_pitches_midi lib (scale_of scale_ty) key_pitch = Inr midis \<longrightarrow>
           (\<exists>m\<in>set midis. 0 \<le> m \<and> m \<le> 120)) \<longrightarrow>
        get_scale_notes lib key scale_ty \<noteq> [])"
proof -
  let ?r = "get_scale_notes lib key scale_ty"
  have fb1: "?r = [60, 62, 64, 65, 67, 69, 71, 72]" if "parse_pitch lib key = Inl e" for e
    using that by (simp add: get_scale_notes_def fallback_scale_def)
  have fb2: "?r = [60, 62, 64, 65, 67, 69, 71, 72]"
    if "parse_pitch lib key = Inr key_pitch"
      and "scale_pitches_midi lib (scale_of scale_ty) key_pitch = Inl e" for key_pitch e
    using that by (simp add: get_scale_notes_def fallback_scale_def)
  have shape: "sorted_wrt (<) ?r \<and> distinct ?r \<and> (\<forall>p\<in>set ?r. 21 \<le> p \<and> p \<le> 108)"
    using get_scale_notes_cases [of lib key scale_ty]
  proof (elim disjE conjE exE)
    fix key_pitch midis
    assume "?r = sort (remdups (concat (map
                 (\<lambda>octave. filter (\<lambda>midi. 21 \<le> midi \<and> midi \<le> 108)
                              (map (\<lambda>p. p + octave * 12) midis))
                 [-1, 0, 1, 2])))"
    then show ?thesis
      using piano_pitches_props(1,2,3) [of midis] by presburger
  qed (use fallback_scale_props in presburger)+
  have nonempty: "?r \<noteq> []"
    if lib_ok: "\<forall>key_pitch midis. parse_pitch lib key = Inr key_pitch
         \<and> scale_pitches_midi lib (scale_of scale_ty) key_pitch = Inr midis \<longrightarrow>
           (\<exists>m\<in>set midis. 0 \<le> m \<and> m \<le> 120)"
    using get_scale_notes_cases [of lib key scale_ty]
  proof (elim disjE conjE exE)
    fix key_pitch midis
    assume a: "parse_pitch lib key = Inr key_pitch"
      "scale_pitches_midi lib (scale_of scale_ty) key_pitch = Inr midis"
      and eq: "?r = sort (remdups (concat (map
                 (\<lambda>octave. filter (\<lambda>midi. 21 \<le> midi \<and> midi \<le> 108)
                              (map (\<lambda>p. p + octave * 12) midis))
                 [-1, 0, 1, 2])))"
    have "\<exists>m\<in>set midis. 0 \<le> m \<and> m \<le> 120" using lib_ok a by blast
    then show ?thesis
      unfolding eq by (rule piano_pitches_props(4))
  qed (use fallback_scale_props(4) in presburger)+
  show ?thesis
    using fb1 fb2 shape nonempty by blast
qed

text \<open>C6 on two instances: A minor, whose scale starts at MIDI number 69, and a key that does not parse.\<close>

theorem get_scale_notes_sound_witness:
  "parse_pitch table_scales ''A'' = Inr 69
   \<and> scale_pitches_midi table_scales (scale_of ''minor'') 69
       = Inr [69, 71, 72, 74, 76, 77, 79, 81]
   \<and> get_scale_notes table_scales ''A'' ''minor'' \<noteq> []
   \<and> sorted_wrt (<) (get_scale_notes table_scales ''A'' ''minor'')
   \<and> (\<exists>e. parse_pitch table_scales ''H'' = Inl e)
   \<and> get_scale_notes table_scales ''H'' ''minor'' = [60, 62, 64, 65, 67, 69, 71, 72]"
proof -
  have p: "parse_pitch table_scales ''A'' = Inr 69"
    by (simp add: table_scales_def key_map_def)
  have s: "scale_pitches_midi table_scales (scale_of ''minor'') 69
       = Inr [69, 71, 72, 74, 76, 77, 79, 81]"
    by (simp add: table_scales_def scale_of_def)
  have h: "\<forall>key_pitch midis. parse_pitch table_scales ''A'' = Inr key_pitch
         \<and> scale_pitches_midi table_scales (scale_of ''minor'') key_pitch = Inr midis \<longrightarrow>
           (\<exists>m\<in>set midis. 0 \<le> m \<and> m \<le> 120)"
    using p s by auto
  have e: "\<exists>e. parse_pitch table_scales ''H'' = Inl e"
    by (simp add: table_scales_def key_map_def)
  show ?thesis
    using p s h e get_scale_notes_sound [of table_scales "''A''" "''minor''"]
      get_scale_notes_sound [of table_scales "''H''" "''minor''"]
    by blast
qed

section \<open>The tempo argument\<close>







section \<open>Properties of the pattern generator\<close>

lemma length_cyclic_repeat: "length (cyclic_repeat xs n) = n"
  by (simp add: cyclic_repeat_def)

lemma take_cyclic_repeat: "n \<le> L \<Longrightarrow> take n (cyclic_repeat xs L) = cyclic_repeat xs n"
  by (simp add: cyclic_repeat_def take_map)

lemma shift_mod:
  fixes m L i :: nat
  assumes "m dvd L" and "L \<le> i"
  shows "(i - L) mod m = i mod m"
proof -
  obtain q where q: "L = m * q" using assms(1) by (auto simp: dvd_def)
  have "i = (i - L) + m * q" using assms(2) q by simp
  then have "i mod m = ((i - L) + m * q) mod m" by simp
  then show ?thesis by simp
qed

lemma cyclic_repeat_append:
  assumes "length xs dvd L" and "j \<le> L"
  shows "cyclic_repeat xs L @ take j (cyclic_repeat xs L) = cyclic_repeat xs (L + j)"
proof (rule nth_equalityI)
  show "length (cyclic_repeat xs L @ take j (cyclic_repeat xs L)) = length (cyclic_repeat xs (L + j))"
    using assms(2) by (simp add: length_cyclic_repeat)
next
  fix i
  assume "i < length (cyclic_repeat xs L @ take j (cyclic_repeat xs L))"
  then have i: "i < L + j" using assms(2) by (simp add: length_cyclic_repeat)
  show "(cyclic_repeat xs L @ take j (cyclic_repeat xs L)) ! i = cyclic_repeat xs (L + j) ! i"
  proof (cases "i < L")
    case True
    then show ?thesis using i by (simp add: nth_append cyclic_repeat_def)
  next
    case False
    then have "i - L < j" "i - L < L" "L \<le> i" using i assms(2) by simp_all
    then show ?thesis
      using i False shift_mod [OF assms(1), of i]
      by (simp add: nth_append cyclic_repeat_def)
  qed
qed

lemma cyclic_repeat_whole: "cyclic_repeat xs (length xs) = xs"
  by (rule nth_equalityI) (simp_all add: cyclic_repeat_def)

lemma cyclic_repeat_append_base:
  assumes "length xs dvd L" and "0 < L"
  shows "cyclic_repeat xs L @ xs = cyclic_repeat xs (L + length xs)"
proof -
  have le: "length xs \<le> L" using assms by (simp add: dvd_imp_le)
  have "take (length xs) (cyclic_repeat xs L) = xs"
    using take_cyclic_repeat [OF le] cyclic_repeat_whole by metis
  then show ?thesis
    using cyclic_repeat_append [OF assms(1) le] by simp
qed

lemma fallback_loop_cyclic:
  assumes "base \<noteq> []" and "length base dvd L"
  shows "\<exists>L'. fallback_loop base n (cyclic_repeat base L) = Some (cyclic_repeat base L')
             \<and> n \<le> int L'"
  using assms(2)
proof (induction "nat (n - int L)" arbitrary: L rule: less_induct)
  case less
  show ?case
  proof (cases "int L < n")
    case False
    then have "fallback_loop base n (cyclic_repeat base L) = Some (cyclic_repeat base L)"
      by (subst fallback_loop.simps) (simp add: length_cyclic_repeat)
    then show ?thesis using False by (intro exI [of _ L]) simp
  next
    case True
    have app: "cyclic_repeat base L @ base = cyclic_repeat base (L + length base)"
    proof (cases "L = 0")
      case True
      then show ?thesis by (simp add: cyclic_repeat_whole) (simp add: cyclic_repeat_def)
    next
      case False
      then show ?thesis using cyclic_repeat_append_base [OF less.prems] by simp
    qed
    have step: "fallback_loop base n (cyclic_repeat base L) =
                fallback_loop base n (cyclic_repeat base (L + length base))"
      using True by (subst fallback_loop.simps) (simp add: length_cyclic_repeat app)
    have "nat (n - int (L + length base)) < nat (n - int L)"
      using True assms(1) by (simp add: nat_less_iff) 
    moreover have "length base dvd L + length base" using less.prems by simp
    ultimately show ?thesis
      using less.hyps [of "L + length base"] step by simp
  qed
qed

lemma patterns_nonempty:
  "(case map_of patterns mood of Some p \<Rightarrow> p | None \<Rightarrow> [0, 2, 4, 5, 7]) \<noteq> []"
  by (simp add: patterns_def)

lemma py_take_all: "int (length xs) \<le> k \<Longrightarrow> py_take k xs = xs"
  by (simp add: py_take_def)

lemma fallback_pattern_cyclic:
  "fallback_pattern mood n =
     Some (cyclic_repeat (case map_of patterns mood of Some p \<Rightarrow> p | None \<Rightarrow> [0, 2, 4, 5, 7])
             (nat n))"
proof -
  let ?base = "case map_of patterns mood of Some p \<Rightarrow> p | None \<Rightarrow> [0, 2, 4, 5, 7]"
  have start: "cyclic_repeat ?base 0 = []" by (simp add: cyclic_repeat_def)
  obtain L' where loop: "fallback_loop ?base n [] = Some (cyclic_repeat ?base L')" "n \<le> int L'"
    using fallback_loop_cyclic [OF patterns_nonempty, of mood 0 n] start by auto
  show ?thesis
  proof (cases "0 \<le> n")
    case True
    then have "py_take n (cyclic_repeat ?base L') = cyclic_repeat ?base (nat n)"
      using loop(2) by (simp add: py_take_def take_cyclic_repeat)
    then show ?thesis using loop(1) by (simp add: fallback_pattern_def)
  next
    case False
    then have "fallback_loop ?base n [] = Some []"
      by (subst fallback_loop.simps) simp
    then show ?thesis using False by (simp add: fallback_pattern_def py_take_def cyclic_repeat_def)
  qed
qed

text \<open>
  Claim C1. When the model raises, the generator answers with the fallback pattern of the
  mood. For the mood energetic and four notes that pattern is 0, 4, 7, 12, whose last value
  is not a scale degree in 0..7, although the generator documents its result as a list of
  integers in 0..7 and the extraction from text reduces every value modulo 8.
\<close>

theorem fallback_leaves_scale_degrees:
  "generate_interval_pattern failing_model () ''C'' ''energetic'' 4 0.8 = Some [0, 4, 7, 12]"
  by (simp add: generate_interval_pattern_def failing_model_def fallback_pattern_def
      patterns_def fallback_loop.simps py_take_def)

text \<open>
  Claim C2, as stated, fails on the fallback table of interval patterns: an unknown mood
  gets the table's own default 0, 2, 4, 5, 7 and not the entry of happy.
\<close>

theorem fallback_table_default_counterexample:
  "map_of patterns ''jazz'' = None
   \<and> fallback_pattern ''jazz'' 5 = Some [0, 2, 4, 5, 7]
   \<and> fallback_pattern ''happy'' 5 = Some [0, 2, 4, 7, 4]
   \<and> fallback_pattern ''jazz'' 5 \<noteq> fallback_pattern ''happy'' 5"
  by (simp add: fallback_pattern_def patterns_def fallback_loop.simps py_take_def)

lemma unknown_in_tables:
  assumes "mood \<notin> set (map fst mood_configs)"
  shows "map_of patterns mood = None" and "map_of mood_descriptions mood = None"
  using assms by (simp_all add: mood_configs_def patterns_def mood_descriptions_def)

text \<open>
  Claim C2, amended. For a mood that is not in the mood table, the configuration used by the
  renderer (scale, density, rhythm choice), by the style patterns and by the description is
  the one of happy. The fallback table of interval patterns and the prompt's table of
  adjectives have defaults of their own: the pattern 0, 2, 4, 5, 7, where happy has
  0, 2, 4, 7, 4, 2, and the word musical.
\<close>

theorem unknown_mood_defaults:
  assumes "mood \<notin> set (map fst mood_configs)"
  shows "mood_configs_get mood = mood_configs_get ''happy''
       \<and> create_arpeggio_from_intervals lib key mood intervals num_bars bpm g =
           create_arpeggio_from_intervals lib key ''happy'' intervals num_bars bpm g
       \<and> create_pattern_from_style style key mood num_bars g =
           create_pattern_from_style style key ''happy'' num_bars g
       \<and> get_mood_description mood intervals =
           capitalize mood @ '' '' @ scale_type (mood_configs_get ''happy'')
             @ '' arpeggio with '' @ analyze_pattern_movement intervals @ '' movement''
       \<and> fallback_pattern mood num_notes = Some (cyclic_repeat [0, 2, 4, 5, 7] (nat num_notes))
       \<and> fallback_pattern ''happy'' num_notes
           = Some (cyclic_repeat [0, 2, 4, 7, 4, 2] (nat num_notes))
       \<and> create_prompt key mood num_notes =
           ''Music composition in '' @ key @ '' with musical character.''
             @ [CHR 0x0A] @ ''Arpeggio pattern: ''"
proof -
  have cfg: "mood_configs_get mood = mood_configs_get ''happy''"
    using mood_configs_get_unknown [OF assms] mood_configs_get_happy by simp
  have fb: "fallback_pattern mood num_notes = Some (cyclic_repeat [0, 2, 4, 5, 7] (nat num_notes))"
    using fallback_pattern_cyclic [of mood num_notes] unknown_in_tables(1) [OF assms] by simp
  have fh: "fallback_pattern ''happy'' num_notes
           = Some (cyclic_repeat [0, 2, 4, 7, 4, 2] (nat num_notes))"
    using fallback_pattern_cyclic [of "''happy''" num_notes] by (simp add: patterns_def)
  have pr: "create_prompt key mood num_notes =
           ''Music composition in '' @ key @ '' with musical character.''
             @ [CHR 0x0A] @ ''Arpeggio pattern: ''"
    using unknown_in_tables(2) [OF assms] by (simp add: create_prompt_def)
  show ?thesis
    using cfg fb fh pr
    by (simp add: create_arpeggio_from_intervals_def create_pattern_from_style_def
        get_mood_description_def)
qed

text \<open>C2, amended, on an instance: the mood jazz is not in the table.\<close>

theorem unknown_mood_defaults_witness:
  "''jazz'' \<notin> set (map fst mood_configs)
   \<and> mood_configs_get ''jazz'' = mood_configs_get ''happy''
   \<and> fallback_pattern ''jazz'' 7 = Some (cyclic_repeat [0, 2, 4, 5, 7] (nat 7))
   \<and> get_mood_description ''jazz'' [0, 1, 2] = ''Jazz major arpeggio with ascending movement''"
proof -
  have h: "''jazz'' \<notin> set (map fst mood_configs)"
    by (simp add: mood_configs_def)
  have d: "capitalize ''jazz'' @ '' '' @ scale_type (mood_configs_get ''happy'')
             @ '' arpeggio with '' @ analyze_pattern_movement [0, 1, 2] @ '' movement''
           = ''Jazz major arpeggio with ascending movement''"
    by code_simp
  note inst = unknown_mood_defaults [OF h, where lib = table_scales and key = "''C''"
      and intervals = "[0, 1, 2]" and num_bars = 1 and bpm = 120 and g = example_rng
      and style = "''ascending''" and num_notes = 7]
  have a: "mood_configs_get ''jazz'' = mood_configs_get ''happy''"
    using inst by blast
  have b: "fallback_pattern ''jazz'' 7 = Some (cyclic_repeat [0, 2, 4, 5, 7] (nat 7))"
    using inst by blast
  have c: "get_mood_description ''jazz'' [0, 1, 2] =
           capitalize ''jazz'' @ '' '' @ scale_type (mood_configs_get ''happy'')
             @ '' arpeggio with '' @ analyze_pattern_movement [0, 1, 2] @ '' movement''"
    using inst by blast
  have e: "get_mood_description ''jazz'' [0, 1, 2] = ''Jazz major arpeggio with ascending movement''"
    using c d by (rule trans)
  show ?thesis
    using h a b e by blast
qed

lemma pad_loop_cyclic:
  assumes "base \<noteq> []" and "0 < L" and "length base dvd L \<or> num_notes \<le> int L"
  shows "pad_loop num_notes (cyclic_repeat base L) =
           Some (cyclic_repeat base (max L (nat num_notes)))"
  using assms(2,3)
proof (induction "nat (num_notes - int L)" arbitrary: L rule: less_induct)
  case less
  show ?case
  proof (cases "int L < num_notes")
    case False
    then have "pad_loop num_notes (cyclic_repeat base L) = Some (cyclic_repeat base L)"
      by (subst pad_loop.simps) (simp add: length_cyclic_repeat)
    moreover have "max L (nat num_notes) = L" using False by simp
    ultimately show ?thesis by simp
  next
    case True
    then have dvd: "length base dvd L" using less.prems(2) by simp
    define j where "j = min (nat (num_notes - int L)) L"
    have j: "j \<le> L" "0 < j" using True less.prems(1) by (simp_all add: j_def)
    have "take (nat (num_notes - int L)) (cyclic_repeat base L) = take j (cyclic_repeat base L)"
    proof (cases "nat (num_notes - int L) \<le> L")
      case True
      then show ?thesis by (simp add: j_def)
    next
      case False
      then show ?thesis by (simp add: j_def length_cyclic_repeat)
    qed
    then have tk: "py_take (num_notes - int L) (cyclic_repeat base L) = take j (cyclic_repeat base L)"
      using True by (simp add: py_take_def)
    have step: "pad_loop num_notes (cyclic_repeat base L) =
                pad_loop num_notes (cyclic_repeat base (L + j))"
      using True
      by (subst pad_loop.simps)
         (simp add: length_cyclic_repeat tk cyclic_repeat_append [OF dvd j(1)])
    have inv: "length base dvd L + j \<or> num_notes \<le> int (L + j)"
    proof (cases "nat (num_notes - int L) \<le> L")
      case True
      then have "j = nat (num_notes - int L)" by (simp add: j_def)
      then show ?thesis using \<open>int L < num_notes\<close> by simp
    next
      case False
      then have "j = L" by (simp add: j_def)
      then show ?thesis using dvd by simp
    qed
    have le: "int (L + j) \<le> num_notes"
      using True by (simp add: j_def)
    have dec: "nat (num_notes - int (L + j)) < nat (num_notes - int L)"
      using True j(2) by simp
    have "pad_loop num_notes (cyclic_repeat base (L + j)) =
            Some (cyclic_repeat base (max (L + j) (nat num_notes)))"
      using less.hyps [OF dec _ inv] j by simp
    moreover have "max (L + j) (nat num_notes) = max L (nat num_notes)"
      using le True by simp
    ultimately show ?thesis using step by simp
  qed
qed

text \<open>
  Claim C8. When the text has at least one run of digits and fewer runs than
  \<open>num_notes\<close>, the extraction returns the first \<open>num_notes\<close> values of the endless
  repetition of the extracted values modulo 8: the padding loop is cyclic repetition cut to
  \<open>num_notes\<close>.
\<close>

theorem extract_intervals_pads_cyclically:
  assumes "findall_digits [] text \<noteq> []"
    and "int (length (findall_digits [] text)) < num_notes"
  shows "extract_intervals text num_notes =
           Some (Inr (cyclic_repeat (map (\<lambda>m. int_of_digits m mod 8) (findall_digits [] text))
                        (nat num_notes)))"
proof -
  let ?matches = "findall_digits [] text"
  let ?base = "map (\<lambda>m. int_of_digits m mod 8) ?matches"
  have base: "?base \<noteq> []" "0 < length ?base" using assms(1) by simp_all
  have tk: "py_take num_notes ?matches = ?matches"
    using assms(2) by (simp add: py_take_all)
  have whole: "cyclic_repeat ?base (length ?base) = ?base"
    by (rule cyclic_repeat_whole)
  have "pad_loop num_notes (cyclic_repeat ?base (length ?base)) =
          Some (cyclic_repeat ?base (max (length ?base) (nat num_notes)))"
    by (rule pad_loop_cyclic [OF base(1) base(2)]) simp
  moreover have "max (length ?base) (nat num_notes) = nat num_notes"
    using assms(2) by simp
  ultimately have loop: "pad_loop num_notes ?base = Some (cyclic_repeat ?base (nat num_notes))"
    by (simp only: whole)
  have "py_take num_notes (cyclic_repeat ?base (nat num_notes)) = cyclic_repeat ?base (nat num_notes)"
    using assms(2) by (simp add: py_take_all length_cyclic_repeat)
  then show ?thesis
    using assms(1) tk loop by (simp add: extract_intervals_def Let_def)
qed

text \<open>C8 on an instance: three runs of digits padded to seven values.\<close>

theorem extract_intervals_pads_cyclically_witness:
  "findall_digits [] ''a 9 10 3'' \<noteq> []
   \<and> int (length (findall_digits [] ''a 9 10 3'')) < 7
   \<and> extract_intervals ''a 9 10 3'' 7 = Some (Inr [1, 2, 3, 1, 2, 3, 1])"
proof -
  have m: "findall_digits [] ''a 9 10 3'' = [''9'', ''10'', ''3'']"
    by (simp add: is_decimal_def)
  have h1: "findall_digits [] ''a 9 10 3'' \<noteq> []" using m by simp
  have h2: "int (length (findall_digits [] ''a 9 10 3'')) < 7" using m by simp
  have v: "cyclic_repeat (map (\<lambda>m. int_of_digits m mod 8) (findall_digits [] ''a 9 10 3''))
             (nat 7) = [1, 2, 3, 1, 2, 3, 1]"
    unfolding m by code_simp
  show ?thesis
    using h1 h2 extract_intervals_pads_cyclically [OF h1 h2] v by simp
qed

lemma caller_num_notes:
  assumes "0 < num_bars"
  shows "2 \<le> get_notes_per_bar density * num_bars"
proof -
  have "2 \<le> get_notes_per_bar density"
    by (simp add: get_notes_per_bar_def)
  then have "2 * 1 \<le> get_notes_per_bar density * num_bars"
    using assms by (intro mult_mono) simp_all
  then show ?thesis by simp
qed

text \<open>The scan beyond ASCII: the letters U+00E9 and U+00C9 both give 233 mod 8, and the
  superscript two passes \<open>isdigit\<close> and makes \<open>int\<close> raise.\<close>

lemma scan_chars_latin1:
  "scan_chars 4 [CHR 0xE9, CHR 0xC9] [] = Inr [1, 1]"
  "scan_chars 2 [CHR 0xB2, CHR ''c''] [] = Inl ValueError"
  by (simp_all add: isdigit_def is_decimal_def isalpha_def is_upper_def is_lower_def
      lower_def ord_def int_of_char_def)

text \<open>One note is fewer than any caller asks for (\<open>caller_num_notes\<close>). There a scan that
  collects nothing is answered with the fallback pattern, as every empty extraction is.\<close>

lemma single_note_empty_scan:
  "scan_chars 1 (py_drop (length ''--'' div 2) ''--'') [] = Inr []
   \<and> generate_interval_pattern silent_model () ''C'' ''happy'' 1 0.8 = Some [0]"
  by (simp add: generate_interval_pattern_def silent_model_def extract_intervals_def
      isdigit_def is_decimal_def isalpha_def is_upper_def is_lower_def py_drop_def py_take_def
      fallback_pattern_def patterns_def fallback_loop.simps)

text \<open>
  Claim C10. If the text has no run of digits and the scan of its second half collects
  \<open>k\<close> values with \<open>num_notes // 2 \<le> k < num_notes\<close>, the generator returns exactly
  these values, unpadded: a list shorter than \<open>num_notes\<close>. It is stated for the numbers of
  notes that a caller passes, which are at least 2; a scan that raises collects nothing and
  is outside the claim.
\<close>

theorem scanned_values_returned_unpadded:
  assumes "lm ts (create_prompt key mood num_notes) temperature = Inr generated"
    and "findall_digits [] generated = []"
    and "scan_chars num_notes (py_drop (length generated div 2) generated) [] = Inr ks"
    and "2 \<le> num_notes"
    and "num_notes div 2 \<le> int (length ks)"
    and "int (length ks) < num_notes"
  shows "generate_interval_pattern lm ts key mood num_notes temperature = Some ks
       \<and> int (length ks) < num_notes"
proof -
  have "1 \<le> num_notes div 2" using assms(4) by simp
  then have ne: "ks \<noteq> []" using assms(5) by auto
  have "py_take num_notes ks = ks"
    using assms(6) by (simp add: py_take_all)
  then have ex: "extract_intervals generated num_notes = Some (Inr ks)"
    using assms(2,3) ne by (simp add: extract_intervals_def Let_def)
  have "\<not> (ks = [] \<or> int (length ks) < num_notes div 2)"
    using ne assms(5) by simp
  then show ?thesis
    using assms(1,6) ex by (simp add: generate_interval_pattern_def Let_def)
qed

text \<open>C10 on an instance: four letters scanned, seven notes asked for.\<close>

theorem scanned_values_returned_unpadded_witness:
  "letters_model () (create_prompt ''C'' ''happy'' 7) 0.8 = Inr ''    abcd''
   \<and> findall_digits [] ''    abcd'' = []
   \<and> scan_chars 7 (py_drop (length ''    abcd'' div 2) ''    abcd'') [] = Inr [1, 2, 3, 4]
   \<and> (2::int) \<le> 7
   \<and> (7::int) div 2 \<le> int (length [1, 2, 3, 4 :: int])
   \<and> int (length [1, 2, 3, 4 :: int]) < 7
   \<and> generate_interval_pattern letters_model () ''C'' ''happy'' 7 0.8 = Some [1, 2, 3, 4]"
proof -
  have h1: "letters_model () (create_prompt ''C'' ''happy'' 7) 0.8 = Inr ''    abcd''"
    by (simp add: letters_model_def)
  have h2: "findall_digits [] ''    abcd'' = []"
    by (simp add: is_decimal_def)
  have h3: "scan_chars 7 (py_drop (length ''    abcd'' div 2) ''    abcd'') [] = Inr [1, 2, 3, 4]"
    by (simp add: py_drop_def isdigit_def is_decimal_def isalpha_def is_upper_def is_lower_def
        lower_def ord_def)
  have h4: "(2::int) \<le> 7" by simp
  have h5: "(7::int) div 2 \<le> int (length [1, 2, 3, 4 :: int])" by simp
  have h6: "int (length [1, 2, 3, 4 :: int]) < 7" by simp
  show ?thesis
    using h1 h2 h3 h4 h5 h6
      scanned_values_returned_unpadded [where lm = letters_model and ts = "()"
        and key = "''C''" and mood = "''happy''" and num_notes = 7 and temperature = "0.8"
        and generated = "''    abcd''" and ks = "[1, 2, 3, 4]", OF h1 h2 h3 h4 h5 h6]
    by blast
qed

end
